theory Spec2Isabelle
  imports Complex_Main
begin

section \<open>Ledger Account (src/models/Account.js)\<close>

text \<open>
  A JavaScript \<open>Number\<close> holding money is modelled as an exact rational, a \<open>Date\<close>
  as its millisecond time stamp. The three readings that \<open>canTransact\<close> takes from the
  runtime (\<open>new Date()\<close>, local midnight of that day, local midnight of the first day of
  that month) form a \<open>clock\<close>; the calendar that computes the last two from the first
  belongs to the runtime and is not modelled.
\<close>

type_synonym date = int

record clock =
  now :: date
  today :: date
  thisMonth :: date

datatype accountType = Savings | Current

datatype freezeReason =
  FreezeNone | SuspiciousActivity | CustomerRequest | AdminAction | LegalHold

record account =
  accountNumber :: string
  userId :: nat
  accountType :: accountType
  balance :: rat
  minimumBalance :: rat
  overdraftLimit :: rat
  isActive :: bool
  freezeReason :: freezeReason
  dailyTransactionLimit :: rat
  monthlyTransactionLimit :: rat
  todayTransactionAmount :: rat
  monthTransactionAmount :: rat
  lastTransactionReset :: date
  lastMonthlyReset :: date

text \<open>The \<open>status\<close> virtual (Account.js, lines 132-136).\<close>

definition status :: "account \<Rightarrow> string" where
  "status a =
     (if \<not> isActive a then ''inactive''
      else if freezeReason a \<noteq> FreezeNone then ''frozen''
      else ''active'')"

text \<open>The object \<open>{allowed, reason}\<close> returned by \<open>canTransact\<close>.\<close>

record verdict =
  allowed :: bool
  reason :: "string option"

text \<open>
  \<open>canTransact\<close> (lines 175-229). The method assigns to fields of \<open>this\<close>, so the model
  returns the document after the call together with the verdict.
\<close>

definition canTransact :: "clock \<Rightarrow> rat \<Rightarrow> account \<Rightarrow> account \<times> verdict" where
  "canTransact clk amount a =
     (let a1 = (if lastTransactionReset a < today clk
                then a\<lparr>todayTransactionAmount := 0, lastTransactionReset := now clk\<rparr>
                else a);
          a2 = (if lastMonthlyReset a1 < thisMonth clk
                then a1\<lparr>monthTransactionAmount := 0, lastMonthlyReset := now clk\<rparr>
                else a1)
      in if todayTransactionAmount a2 + amount > dailyTransactionLimit a2
         then (a2, \<lparr>allowed = False, reason = Some ''Daily transaction limit exceeded''\<rparr>)
         else if monthTransactionAmount a2 + amount > monthlyTransactionLimit a2
         then (a2, \<lparr>allowed = False, reason = Some ''Monthly transaction limit exceeded''\<rparr>)
         else (case accountType a2 of
                 Savings \<Rightarrow>
                   if balance a2 - amount < minimumBalance a2
                   then (a2, \<lparr>allowed = False,
                              reason = Some ''Insufficient balance. Minimum balance requirement not met''\<rparr>)
                   else (a2, \<lparr>allowed = True, reason = None\<rparr>)
               | Current \<Rightarrow>
                   if balance a2 - amount < - overdraftLimit a2
                   then (a2, \<lparr>allowed = False, reason = Some ''Overdraft limit exceeded''\<rparr>)
                   else (a2, \<lparr>allowed = True, reason = None\<rparr>)))"

text \<open>
  \<open>save()\<close> runs the validators the schema declares for \<open>balance\<close> (lines 22-40): the
  built-in \<open>min: 0\<close> and the custom floor validator. A failed validation rejects the
  save with the validator's message; the fields already assigned stay assigned on the
  document in memory. The outcome \<open>Inr ()\<close> stands for a save that went through; where
  the saved document is written to is decided by the caller's session (see the section on
  persistence).
\<close>

definition validateBalance :: "account \<Rightarrow> string option" where
  "validateBalance a =
     (if balance a < 0 then Some ''Balance cannot be negative''
      else if \<not> (case accountType a of
                    Savings \<Rightarrow> balance a \<ge> minimumBalance a
                  | Current \<Rightarrow> balance a \<ge> - overdraftLimit a)
      then Some ''Balance is below minimum required balance''
      else None)"

definition save :: "account \<Rightarrow> string + unit" where
  "save a =
     (case validateBalance a of
        Some e \<Rightarrow> Inl (''Account validation failed: balance: '' @ e)
      | None \<Rightarrow> Inr ())"

text \<open>\<open>updateTransactionAmounts\<close> (lines 232-236).\<close>

definition updateTransactionAmounts :: "rat \<Rightarrow> account \<Rightarrow> account \<times> (string + unit)" where
  "updateTransactionAmounts amount a =
     (let a1 = a\<lparr>todayTransactionAmount := todayTransactionAmount a + amount\<rparr>;
          a2 = a1\<lparr>monthTransactionAmount := monthTransactionAmount a1 + amount\<rparr>
      in (a2, save a2))"

text \<open>
  \<open>credit\<close> (lines 239-252) and \<open>debit\<close> (lines 255-274). A thrown \<open>Error\<close> is the
  \<open>Inl\<close> of its message; the returned object keeps \<open>newBalance\<close> (the formatted
  message string is left out).
\<close>

definition credit :: "rat \<Rightarrow> account \<Rightarrow> account \<times> (string + rat)" where
  "credit amount a =
     (if amount \<le> 0 then (a, Inl ''Credit amount must be positive'')
      else let a1 = a\<lparr>balance := balance a + amount\<rparr>
           in (case save a1 of
                 Inl e \<Rightarrow> (a1, Inl e)
               | Inr _ \<Rightarrow> (a1, Inr (balance a1))))"

definition debit :: "clock \<Rightarrow> rat \<Rightarrow> account \<Rightarrow> account \<times> (string + rat)" where
  "debit clk amount a =
     (if amount \<le> 0 then (a, Inl ''Debit amount must be positive'')
      else case canTransact clk amount a of
        (a1, v) \<Rightarrow>
          if \<not> allowed v
          then (a1, Inl (case reason v of Some r \<Rightarrow> r | None \<Rightarrow> ''null''))
          else let a2 = a1\<lparr>balance := balance a1 - amount\<rparr>
               in (case updateTransactionAmounts amount a2 of
                     (a3, Inl e) \<Rightarrow> (a3, Inl e)
                   | (a3, Inr _) \<Rightarrow> (a3, Inr (balance a3))))"

text \<open>
  \<open>freeze\<close> and \<open>unfreeze\<close> (lines 277-288). The reason ranges over the schema's
  enumeration; neither method touches a validated path, so the save goes through.
\<close>

definition freeze :: "freezeReason \<Rightarrow> account \<Rightarrow> account" where
  "freeze r a = a\<lparr>freezeReason := r, isActive := False\<rparr>"

definition unfreeze :: "account \<Rightarrow> account" where
  "unfreeze a = a\<lparr>freezeReason := FreezeNone, isActive := True\<rparr>"

section \<open>Transaction Record (src/unnamed/part_004)\<close>

datatype transactionType =
  TxTransfer | TxDeposit | TxWithdrawal | TxFdDeposit | TxFdMaturity | TxRdDeposit
  | TxRdMaturity | TxInterestCredit | TxFeeDebit | TxPenaltyDebit | TxReversal

datatype transactionStatus = Pending | Completed | Failed | Reversed

text \<open>
  The fields of the schema the operations below read or write. The field \<open>status\<close> is
  named \<open>txnStatus\<close> here, the nested \<open>balances\<close> and \<open>fees\<close> objects are flattened,
  \<open>metadata\<close> is left out. A \<open>transactionId\<close> that was never assigned is the empty
  string.
\<close>

record transaction =
  transactionId :: string
  fromAccountNumber :: "string option"
  toAccountNumber :: "string option"
  amount :: rat
  transactionType :: transactionType
  description :: string
  txnStatus :: transactionStatus
  reference :: "string option"
  transactionFee :: rat
  gst :: rat
  totalFees :: rat
  fromAccountBalance :: "rat option"
  toAccountBalance :: "rat option"
  processedAt :: "date option"
  failureReason :: "string option"

text \<open>\<open>calculateTransactionFees\<close> (lines 248-273); \<open>Math.round\<close> is \<open>round\<close>.\<close>

definition calculateTransactionFees :: "transactionType \<Rightarrow> rat \<Rightarrow> rat \<times> rat \<times> rat" where
  "calculateTransactionFees ty amt =
     (let fee = (case ty of
                   TxTransfer \<Rightarrow> if amt > 25000 then (5::rat) else 0
                 | TxWithdrawal \<Rightarrow> 0
                 | _ \<Rightarrow> 0);
          g = fee * (18 / 100);
          feeTotal = fee + g
      in (of_int (round (fee * 100)) / 100,
          of_int (round (g * 100)) / 100,
          of_int (round (feeTotal * 100)) / 100))"

text \<open>
  \<open>trim: true\<close> on \<open>description\<close> strips white space at both ends before the value is
  validated.
\<close>

definition isSpace :: "char \<Rightarrow> bool" where
  "isSpace c =
     (c = CHR '' '' \<or> c = CHR 0x09 \<or> c = CHR 0x0A \<or> c = CHR 0x0B \<or> c = CHR 0x0C
      \<or> c = CHR 0x0D)"

definition trim :: "string \<Rightarrow> string" where
  "trim s = rev (dropWhile isSpace (rev (dropWhile isSpace s)))"

text \<open>
  The validation that every \<open>save()\<close> of a transaction runs first, before any
  \<open>pre("save")\<close> hook of the schema: \<open>transactionId\<close> is required (lines 5-10),
  \<open>amount\<close> is required and at least 0.01 (lines 33-43), \<open>description\<close> is required
  and at most 500 characters (lines 62-67), the three fees are at least 0 (lines
  95-110), \<open>failureReason\<close> is at most 200 characters (lines 121-124).
  \<open>transactionType\<close> and \<open>status\<close> range over their enumerations by their types. The
  whole document is checked on every save; the answer names the first refused path.
\<close>

definition validateTransaction :: "transaction \<Rightarrow> string option" where
  "validateTransaction x =
     (if transactionId x = [] then Some ''transactionId: Path `transactionId` is required.''
      else if amount x < 1 / 100 then Some ''amount: Amount must be greater than 0''
      else if trim (description x) = [] then Some ''description: Description is required''
      else if length (trim (description x)) > 500
      then Some ''description: Description cannot exceed 500 characters''
      else if transactionFee x < 0
      then Some ''fees.transactionFee: Path `fees.transactionFee` is less than minimum allowed value (0).''
      else if gst x < 0
      then Some ''fees.gst: Path `fees.gst` is less than minimum allowed value (0).''
      else if totalFees x < 0
      then Some ''fees.totalFees: Path `fees.totalFees` is less than minimum allowed value (0).''
      else if (case failureReason x of Some r \<Rightarrow> length r > 200 | None \<Rightarrow> False)
      then Some ''failureReason: Failure reason cannot exceed 200 characters''
      else None)"

definition saveTransaction :: "transaction \<Rightarrow> string + unit" where
  "saveTransaction x =
     (case validateTransaction x of
        Some e \<Rightarrow> Inl (''Transaction validation failed: '' @ e)
      | None \<Rightarrow> Inr ())"

text \<open>
  The pre-save hook on a new document (lines 178-216). It runs only after the
  validation above has passed. The identifier is the one \<open>generateTransactionId\<close>
  returns, passed in as \<open>tid\<close>. The callers modelled here always supply the account
  numbers, so the two look-ups by account id are not taken.
\<close>

definition preSaveNew :: "string \<Rightarrow> transaction \<Rightarrow> transaction" where
  "preSaveNew tid x =
     (let x1 = (if transactionId x = [] then x\<lparr>transactionId := tid\<rparr> else x)
      in if totalFees x1 = 0
         then (case calculateTransactionFees (transactionType x1) (amount x1) of
                 (f, g, t) \<Rightarrow> x1\<lparr>transactionFee := f, gst := g, totalFees := t\<rparr>)
         else x1)"

text \<open>
  The first save of a new document: validation, then the hook, then the insertion,
  which is left to the caller's session. A document built without \<open>transactionId\<close> is
  refused here, before the hook could generate one.
\<close>

definition saveNew :: "string \<Rightarrow> transaction \<Rightarrow> string + transaction" where
  "saveNew tid x =
     (case saveTransaction x of
        Inl e \<Rightarrow> Inl e
      | Inr _ \<Rightarrow> Inr (preSaveNew tid x))"

text \<open>\<open>complete\<close> (lines 276-291) and \<open>fail\<close> (lines 294-300); \<open>t\<close> is \<open>new Date()\<close>.\<close>

definition complete ::
  "date \<Rightarrow> rat option \<Rightarrow> rat option \<Rightarrow> transaction \<Rightarrow> transaction \<times> (string + unit)" where
  "complete t fromBalance toBalance x =
     (let x1 = x\<lparr>txnStatus := Completed\<rparr>;
          x2 = x1\<lparr>processedAt := Some t\<rparr>;
          x3 = (case fromBalance of Some b \<Rightarrow> x2\<lparr>fromAccountBalance := Some b\<rparr> | None \<Rightarrow> x2);
          x4 = (case toBalance of Some b \<Rightarrow> x3\<lparr>toAccountBalance := Some b\<rparr> | None \<Rightarrow> x3)
      in (x4, saveTransaction x4))"

definition fail :: "date \<Rightarrow> string \<Rightarrow> transaction \<Rightarrow> transaction \<times> (string + unit)" where
  "fail t r x =
     (let x1 = x\<lparr>txnStatus := Failed\<rparr>;
          x2 = x1\<lparr>processedAt := Some t\<rparr>;
          x3 = x2\<lparr>failureReason := Some r\<rparr>
      in (x3, saveTransaction x3))"

section \<open>Persistence: collections and the session of a request\<close>

text \<open>
  The stored collections, and the writes a database session has staged and not yet
  committed. A document that was read through the session (\<open>.session(session)\<close>) or
  saved with \<open>save({ session })\<close> writes into the session; any other document writes
  straight into the collections. \<open>commitTransaction\<close> applies the staged writes,
  \<open>abortTransaction\<close> drops them.
\<close>

record installment =
  instRdId :: string
  installmentNumber :: nat
  instAmount :: rat
  instPenaltyAmount :: rat
  instTotalAmount :: rat
  dueDate :: date
  paidDate :: "date option"
  instPaid :: bool
  instTransactionId :: "string option"

record bank =
  accounts :: "string \<rightharpoonup> account"
  transactions :: "string \<rightharpoonup> transaction"
  installments :: "installment list"

record session =
  stagedAccounts :: "string \<rightharpoonup> account"
  stagedTransactions :: "string \<rightharpoonup> transaction"

definition startTransaction :: session where
  "startTransaction = \<lparr>stagedAccounts = Map.empty, stagedTransactions = Map.empty\<rparr>"

definition commitTransaction :: "session \<Rightarrow> bank \<Rightarrow> bank" where
  "commitTransaction s db =
     db\<lparr>accounts := accounts db ++ stagedAccounts s,
        transactions := transactions db ++ stagedTransactions s\<rparr>"

definition abortTransaction :: "session \<Rightarrow> bank \<Rightarrow> bank" where
  "abortTransaction s db = db"

definition stageAccount :: "account \<Rightarrow> session \<Rightarrow> session" where
  "stageAccount a s = s\<lparr>stagedAccounts := (stagedAccounts s)(accountNumber a \<mapsto> a)\<rparr>"

definition stageTransaction :: "transaction \<Rightarrow> session \<Rightarrow> session" where
  "stageTransaction x s =
     s\<lparr>stagedTransactions := (stagedTransactions s)(transactionId x \<mapsto> x)\<rparr>"

definition storeAccount :: "account \<Rightarrow> bank \<Rightarrow> bank" where
  "storeAccount a db = db\<lparr>accounts := (accounts db)(accountNumber a \<mapsto> a)\<rparr>"

definition storeTransaction :: "transaction \<Rightarrow> bank \<Rightarrow> bank" where
  "storeTransaction x db = db\<lparr>transactions := (transactions db)(transactionId x \<mapsto> x)\<rparr>"

text \<open>
  The two queries of \<open>transferMoney\<close>: \<open>Account.findOne({accountNumber, userId,
  isActive: true})\<close> and \<open>Account.findByAccountNumber\<close> (Account.js, lines 299-304).
\<close>

definition findOwnActive :: "bank \<Rightarrow> string \<Rightarrow> nat \<Rightarrow> account option" where
  "findOwnActive db no uid =
     (case accounts db no of
        Some a \<Rightarrow> if userId a = uid \<and> isActive a then Some a else None
      | None \<Rightarrow> None)"

definition findByAccountNumber :: "bank \<Rightarrow> string \<Rightarrow> account option" where
  "findByAccountNumber db no =
     (case accounts db no of
        Some a \<Rightarrow> if isActive a then Some a else None
      | None \<Rightarrow> None)"

section \<open>Money movement: transferMoney (src/controllers/transactionController.js)\<close>

text \<open>
  The handler's answer is the HTTP status, the \<open>success\<close> flag and the message. Besides
  it the model returns what the request leaves behind: the stored collections, and the
  three documents as they stand in memory when the handler returns.
\<close>

datatype response = Response nat bool string

record transferOutcome =
  response :: response
  store :: bank
  fromDoc :: "account option"
  toDoc :: "account option"
  txnDoc :: "transaction option"

text \<open>
  An early return of the handler (lines 24-110): the session is aborted and the answer
  sent; no document has been saved.
\<close>

definition reject ::
  "nat \<Rightarrow> string \<Rightarrow> session \<Rightarrow> bank \<Rightarrow> account option \<Rightarrow> account option \<Rightarrow> transferOutcome" where
  "reject code msg s db f t =
     \<lparr>response = Response code False msg, store = abortTransaction s db,
      fromDoc = f, toDoc = t, txnDoc = None\<rparr>"

text \<open>
  The inner \<open>catch\<close> (lines 157-166): \<open>transaction.fail\<close> saves through the session the
  record was created in, then the session is aborted. When \<open>fail\<close> itself throws, the
  outer \<open>catch\<close> (lines 167-173) aborts and answers 500.
\<close>

definition failTransfer ::
  "date \<Rightarrow> string \<Rightarrow> transaction \<Rightarrow> account \<Rightarrow> account \<Rightarrow> session \<Rightarrow> bank \<Rightarrow> transferOutcome" where
  "failTransfer t msg x f a s db =
     (case fail t msg x of
        (x1, Inl e) \<Rightarrow>
          \<lparr>response = Response 500 False ''Transfer failed. Please try again.'',
           store = abortTransaction s db,
           fromDoc = Some f, toDoc = Some a, txnDoc = Some x1\<rparr>
      | (x1, Inr _) \<Rightarrow>
          \<lparr>response = Response 400 False msg,
           store = abortTransaction (stageTransaction x1 s) db,
           fromDoc = Some f, toDoc = Some a, txnDoc = Some x1\<rparr>)"

text \<open>
  The inner \<open>try\<close> block (lines 132-156). The source account was read through the
  session (line 56), so its save is staged; the destination account was read without it
  (line 76), so its save is written at once; the committed session carries the record
  and the source account.
\<close>

definition transferTry ::
  "clock \<Rightarrow> rat \<Rightarrow> transaction \<Rightarrow> account \<Rightarrow> account \<Rightarrow> session \<Rightarrow> bank \<Rightarrow> transferOutcome" where
  "transferTry clk amt x fromAccount toAccount s db =
     (case debit clk amt fromAccount of
        (fromAccount1, Inl e) \<Rightarrow> failTransfer (now clk) e x fromAccount1 toAccount s db
      | (fromAccount1, Inr _) \<Rightarrow>
          (case credit amt toAccount of
             (toAccount1, Inl e) \<Rightarrow>
               failTransfer (now clk) e x fromAccount1 toAccount1
                 (stageAccount fromAccount1 s) db
           | (toAccount1, Inr _) \<Rightarrow>
               (case complete (now clk) (Some (balance fromAccount1))
                       (Some (balance toAccount1)) x of
                  (x1, Inl e) \<Rightarrow>
                    failTransfer (now clk) e x1 fromAccount1 toAccount1
                      (stageAccount fromAccount1 s) (storeAccount toAccount1 db)
                | (x1, Inr _) \<Rightarrow>
                    \<lparr>response = Response 200 True ''Transfer completed successfully'',
                     store = commitTransaction
                               (stageTransaction x1 (stageAccount fromAccount1 s))
                               (storeAccount toAccount1 db),
                     fromDoc = Some fromAccount1, toDoc = Some toAccount1,
                     txnDoc = Some x1\<rparr>)))"

text \<open>
  The pending record as lines 113-128 build it: no \<open>transactionId\<close> is given to the
  constructor.
\<close>

definition newTransfer :: "account \<Rightarrow> account \<Rightarrow> rat \<Rightarrow> string \<Rightarrow> transaction" where
  "newTransfer fromAccount toAccount amt descr =
     \<lparr>transactionId = [],
      fromAccountNumber = Some (accountNumber fromAccount),
      toAccountNumber = Some (accountNumber toAccount),
      amount = amt, transactionType = TxTransfer, description = descr, txnStatus = Pending,
      reference = None, transactionFee = 0, gst = 0, totalFees = 0,
      fromAccountBalance = None, toAccountBalance = None,
      processedAt = None, failureReason = None\<rparr>"

text \<open>
  \<open>transferMoney\<close> (lines 16-177). \<open>errorsEmpty\<close> is \<open>validationResult(req).isEmpty()\<close>,
  \<open>uid\<close> the authenticated user, \<open>clk\<close> the clock reading of the request, \<open>tid\<close> the
  identifier the generator would return, \<open>descr\<close> the request's description (absent:
  the default of line 37). The record is created with \<open>save({ session })\<close> (line 130);
  when that save throws, the outer \<open>catch\<close> (lines 167-173) aborts the session and
  answers 500.
\<close>

definition transferMoney ::
  "clock \<Rightarrow> string \<Rightarrow> bank \<Rightarrow> bool \<Rightarrow> nat \<Rightarrow> string \<Rightarrow> string \<Rightarrow> rat \<Rightarrow> string option
     \<Rightarrow> transferOutcome" where
  "transferMoney clk tid db errorsEmpty uid fromNo toNo amt descr =
     (let s = startTransaction in
      if \<not> errorsEmpty then reject 400 ''Validation failed'' s db None None
      else if amt \<le> 0
      then reject 400 ''Transfer amount must be greater than zero'' s db None None
      else case findOwnActive db fromNo uid of
        None \<Rightarrow> reject 404 ''Source account not found or inactive'' s db None None
      | Some fromAccount \<Rightarrow>
          if freezeReason fromAccount \<noteq> FreezeNone
          then reject 400 ''Source account is frozen. Please contact support.'' s db
                 (Some fromAccount) None
          else (case findByAccountNumber db toNo of
            None \<Rightarrow> reject 404 ''Beneficiary account not found'' s db (Some fromAccount) None
          | Some toAccount \<Rightarrow>
              if \<not> isActive toAccount \<or> freezeReason toAccount \<noteq> FreezeNone
              then reject 400 ''Beneficiary account is inactive or frozen'' s db
                     (Some fromAccount) (Some toAccount)
              else if fromNo = toNo
              then reject 400 ''Cannot transfer to the same account'' s db
                     (Some fromAccount) (Some toAccount)
              else (case canTransact clk amt fromAccount of
                (fromAccount1, v) \<Rightarrow>
                  if \<not> allowed v
                  then reject 400 (case reason v of Some r \<Rightarrow> r | None \<Rightarrow> ''null'') s db
                         (Some fromAccount1) (Some toAccount)
                  else
                    (let x0 = newTransfer fromAccount1 toAccount amt
                                (case descr of Some d \<Rightarrow> d | None \<Rightarrow> ''Money transfer'')
                     in (case saveNew tid x0 of
                       Inl e \<Rightarrow>
                         \<lparr>response = Response 500 False ''Transfer failed. Please try again.'',
                          store = abortTransaction s db,
                          fromDoc = Some fromAccount1, toDoc = Some toAccount,
                          txnDoc = Some x0\<rparr>
                     | Inr x \<Rightarrow>
                         transferTry clk amt x fromAccount1 toAccount
                           (stageTransaction x s) db)))))"

section \<open>Recurring Deposit (src/unnamed/part_005, src/models/RDInstallment.js)\<close>

datatype rdStatus = RdActive | RdMatured | RdClosed | RdDefaulted

record maturityDetails =
  processedDate :: date
  creditedAccountId :: string
  maturityTransactionId :: string
  totalInterestEarned :: rat

text \<open>
  The fields of the schema that \<open>processInstallment\<close> and \<open>processMaturity\<close> use. An
  account is identified by its account number throughout the model, so \<open>fromAccountId\<close>
  holds one; \<open>status\<close> is \<open>rdStatus\<close>, \<open>autoDebit.failureCount\<close> and its neighbours are
  flattened.
\<close>

record recurringDeposit =
  rdNumber :: string
  fromAccountId :: string
  monthlyAmount :: rat
  rdInterestRate :: rat
  tenure :: nat
  totalDeposited :: rat
  maturityAmount :: rat
  nextDueDate :: date
  rdStatus :: rdStatus
  installmentsPaid :: nat
  penaltyAmount :: rat
  failureCount :: nat
  lastFailureDate :: "date option"
  lastFailureReason :: "string option"
  maturityDetails :: "maturityDetails option"

text \<open>
  Saving the deposit validates its required paths (lines 5-69): the number and the
  source account present, the monthly amount in 500..100000, the rate in 1..12, the
  tenure in 12..120. The required paths that are not fields of the record above (owner,
  maturity date, nominee) are taken as present.
\<close>

definition validateRD :: "recurringDeposit \<Rightarrow> string option" where
  "validateRD rd =
     (if rdNumber rd = [] then Some ''rdNumber: Path `rdNumber` is required.''
      else if fromAccountId rd = [] then Some ''fromAccountId: Source account is required''
      else if monthlyAmount rd < 500 then Some ''monthlyAmount: Minimum RD amount is 500 per month''
      else if monthlyAmount rd > 100000
      then Some ''monthlyAmount: Maximum RD amount is 1,00,000 per month''
      else if rdInterestRate rd < 1 then Some ''interestRate: Interest rate must be at least 1%''
      else if rdInterestRate rd > 12 then Some ''interestRate: Interest rate cannot exceed 12%''
      else if tenure rd < 12 then Some ''tenure: Minimum tenure is 12 months''
      else if tenure rd > 120 then Some ''tenure: Maximum tenure is 120 months (10 years)''
      else None)"

definition saveRD :: "recurringDeposit \<Rightarrow> string + unit" where
  "saveRD rd =
     (case validateRD rd of
        Some e \<Rightarrow> Inl (''RecurringDeposit validation failed: '' @ e)
      | None \<Rightarrow> Inr ())"

text \<open>The \<open>isOverdue\<close> virtual (lines 186-188).\<close>

definition isOverdue :: "clock \<Rightarrow> recurringDeposit \<Rightarrow> bool" where
  "isOverdue clk rd = (rdStatus rd = RdActive \<and> now clk > nextDueDate rd)"

text \<open>
  A new transaction saved without a session (\<open>await transaction.save()\<close>):
  validation, pre-save hook, insertion.
\<close>

definition saveNewTransaction :: "string \<Rightarrow> transaction \<Rightarrow> bank \<Rightarrow> string + transaction \<times> bank" where
  "saveNewTransaction tid x db =
     (case saveNew tid x of
        Inl e \<Rightarrow> Inl e
      | Inr x1 \<Rightarrow> Inr (x1, storeTransaction x1 db))"

text \<open>
  A new installment saved (RDInstallment.js): the validators of lines 11-30, the pre-save
  hook of lines 115-124 that sets \<open>totalAmount\<close>, and the unique index on
  \<open>(rdId, installmentNumber)\<close> of line 110, which refuses a second row with the same pair.
\<close>

definition validateInstallment :: "installment \<Rightarrow> string option" where
  "validateInstallment i =
     (if installmentNumber i < 1 then Some ''installmentNumber: Installment number must be at least 1''
      else if instAmount i < 1 / 100 then Some ''amount: Amount must be greater than 0''
      else if instPenaltyAmount i < 0 then Some ''penaltyAmount: Penalty amount cannot be negative''
      else if instTotalAmount i < 1 / 100 then Some ''totalAmount: Total amount must be greater than 0''
      else None)"

definition saveNewInstallment :: "installment \<Rightarrow> bank \<Rightarrow> string + installment \<times> bank" where
  "saveNewInstallment i db =
     (case validateInstallment i of
        Some e \<Rightarrow> Inl (''RDInstallment validation failed: '' @ e)
      | None \<Rightarrow>
          (let i1 = i\<lparr>instTotalAmount := instAmount i + instPenaltyAmount i\<rparr>
           in if \<exists>j \<in> set (installments db).
                   instRdId j = instRdId i1 \<and> installmentNumber j = installmentNumber i1
              then Inl ''E11000 duplicate key error''
              else Inr (i1, db\<lparr>installments := installments db @ [i1]\<rparr>)))"

text \<open>
  What a call leaves behind: the deposit document in memory, the collections, the
  deposit as the call last saved it (if it did), and the returned object or the thrown
  error's message.
\<close>

record maturityResult =
  paidOut :: rat
  interestEarned :: rat
  paidTransactionId :: string

record 'r rdOutcome =
  rdDoc :: recurringDeposit
  rdStore :: bank
  rdSaved :: "recurringDeposit option"
  rdResult :: "string + 'r"

text \<open>\<open>processMaturity\<close> (lines 400-454); \<open>tid\<close> is the generated transaction identifier.\<close>

definition processMaturity ::
  "clock \<Rightarrow> string \<Rightarrow> recurringDeposit \<Rightarrow> bank \<Rightarrow> maturityResult rdOutcome" where
  "processMaturity clk tid rd db =
     (if installmentsPaid rd < tenure rd
      then \<lparr>rdDoc = rd, rdStore = db, rdSaved = None,
            rdResult = Inl ''RD has not completed all installments''\<rparr>
      else case accounts db (fromAccountId rd) of
        None \<Rightarrow> \<lparr>rdDoc = rd, rdStore = db, rdSaved = None,
                  rdResult = Inl ''Source account not found''\<rparr>
      | Some fromAccount \<Rightarrow>
          (let actualMaturityAmount = maturityAmount rd - penaltyAmount rd;
               interest = actualMaturityAmount - totalDeposited rd
           in case saveNewTransaction tid
                  \<lparr>transactionId = [], fromAccountNumber = None,
                   toAccountNumber = Some (accountNumber fromAccount),
                   amount = actualMaturityAmount, transactionType = TxRdMaturity,
                   description = ''Maturity of RD-'' @ rdNumber rd,
                   txnStatus = Completed, reference = Some (rdNumber rd),
                   transactionFee = 0, gst = 0, totalFees = 0,
                   fromAccountBalance = None, toAccountBalance = None,
                   processedAt = Some (now clk), failureReason = None\<rparr> db of
                Inl e \<Rightarrow> \<lparr>rdDoc = rd, rdStore = db, rdSaved = None, rdResult = Inl e\<rparr>
              | Inr (x, db1) \<Rightarrow>
                  (case credit actualMaturityAmount fromAccount of
                     (fromAccount1, Inl e) \<Rightarrow>
                       \<lparr>rdDoc = rd, rdStore = db1, rdSaved = None, rdResult = Inl e\<rparr>
                   | (fromAccount1, Inr _) \<Rightarrow>
                       (let db2 = storeAccount fromAccount1 db1;
                            rd1 = rd\<lparr>rdStatus := RdMatured,
                                    maturityDetails := Some
                                      \<lparr>processedDate = now clk,
                                       creditedAccountId = fromAccountId rd,
                                       maturityTransactionId = transactionId x,
                                       totalInterestEarned = interest\<rparr>\<rparr>
                        in case saveRD rd1 of
                             Inl e \<Rightarrow>
                               \<lparr>rdDoc = rd1, rdStore = db2, rdSaved = None, rdResult = Inl e\<rparr>
                           | Inr _ \<Rightarrow>
                               \<lparr>rdDoc = rd1, rdStore = db2, rdSaved = Some rd1,
                                rdResult = Inr \<lparr>paidOut = actualMaturityAmount,
                                                interestEarned = interest,
                                                paidTransactionId = transactionId x\<rparr>\<rparr>))))"

record installmentResult =
  paidInstallmentNumber :: nat
  amountPaid :: rat
  penaltyPaid :: rat
  installmentTransactionId :: string
  resultNextDueDate :: date

text \<open>
  The penalty of lines 313-323: ten per whole overdue day, capped at a tenth of the
  instalment; \<open>Math.floor\<close> of the quotient of milliseconds is integer division.
\<close>

definition overdueDays :: "date \<Rightarrow> recurringDeposit \<Rightarrow> int" where
  "overdueDays paymentDate rd = (paymentDate - nextDueDate rd) div (1000 * 60 * 60 * 24)"

definition installmentPenalty :: "clock \<Rightarrow> date \<Rightarrow> recurringDeposit \<Rightarrow> rat" where
  "installmentPenalty clk paymentDate rd =
     (if isOverdue clk rd
      then min (of_int (overdueDays paymentDate rd) * 10) (monthlyAmount rd * (1 / 10))
      else 0)"

text \<open>
  The tail of \<open>processInstallment\<close> (lines 371-397): the counters are updated on the
  document, and the document is saved either by \<open>processMaturity\<close> or as it is.
  \<open>nextMonth\<close> is the runtime's \<open>setMonth(getMonth() + 1)\<close>.
\<close>

definition finishInstallment ::
  "clock \<Rightarrow> (date \<Rightarrow> date) \<Rightarrow> string \<Rightarrow> rat \<Rightarrow> rat \<Rightarrow> transaction \<Rightarrow> installment
     \<Rightarrow> recurringDeposit \<Rightarrow> bank \<Rightarrow> installmentResult rdOutcome" where
  "finishInstallment clk nextMonth tidM penalty totalAmount x i rd db =
     (let rd1 = rd\<lparr>totalDeposited := totalDeposited rd + monthlyAmount rd\<rparr>;
          rd2 = rd1\<lparr>installmentsPaid := installmentsPaid rd1 + 1\<rparr>;
          rd3 = rd2\<lparr>penaltyAmount := penaltyAmount rd2 + penalty\<rparr>;
          rd4 = rd3\<lparr>failureCount := 0\<rparr>;
          rd5 = rd4\<lparr>nextDueDate := nextMonth (nextDueDate rd4)\<rparr>;
          res = \<lparr>paidInstallmentNumber = installmentNumber i, amountPaid = totalAmount,
                 penaltyPaid = penalty, installmentTransactionId = transactionId x,
                 resultNextDueDate = nextDueDate rd5\<rparr>
      in if installmentsPaid rd5 \<ge> tenure rd5
         then (let m = processMaturity clk tidM rd5 db
               in case rdResult m of
                    Inl e \<Rightarrow> \<lparr>rdDoc = rdDoc m, rdStore = rdStore m, rdSaved = rdSaved m,
                              rdResult = Inl e\<rparr>
                  | Inr _ \<Rightarrow> \<lparr>rdDoc = rdDoc m, rdStore = rdStore m, rdSaved = rdSaved m,
                              rdResult = Inr res\<rparr>)
         else (case saveRD rd5 of
                 Inl e \<Rightarrow> \<lparr>rdDoc = rd5, rdStore = db, rdSaved = None, rdResult = Inl e\<rparr>
               | Inr _ \<Rightarrow> \<lparr>rdDoc = rd5, rdStore = db, rdSaved = Some rd5,
                           rdResult = Inr res\<rparr>))"

text \<open>
  \<open>processInstallment\<close> (lines 296-397). \<open>tid\<close> and \<open>tidM\<close> are the identifiers the
  generator would return for the instalment's and the maturity's transaction, \<open>note\<close>
  the runtime's rendering of the penalty remark that line 347 appends to the
  description. The account, the transaction and the instalment row are read and saved
  without a session, each save on its own.
\<close>

definition processInstallment ::
  "clock \<Rightarrow> (date \<Rightarrow> date) \<Rightarrow> string \<Rightarrow> date \<Rightarrow> string \<Rightarrow> string \<Rightarrow> recurringDeposit
     \<Rightarrow> bank \<Rightarrow> installmentResult rdOutcome" where
  "processInstallment clk nextMonth note paymentDate tid tidM rd db =
     (if rdStatus rd \<noteq> RdActive
      then \<lparr>rdDoc = rd, rdStore = db, rdSaved = None, rdResult = Inl ''RD is not active''\<rparr>
      else case accounts db (fromAccountId rd) of
        None \<Rightarrow> \<lparr>rdDoc = rd, rdStore = db, rdSaved = None,
                  rdResult = Inl ''Source account not found''\<rparr>
      | Some fromAccount \<Rightarrow>
          (let penalty = installmentPenalty clk paymentDate rd;
               totalAmount = monthlyAmount rd + penalty
           in case canTransact clk totalAmount fromAccount of
             (fromAccount1, v) \<Rightarrow>
               if \<not> allowed v
               then (let rd1 = rd\<lparr>failureCount := failureCount rd + 1,
                                  lastFailureDate := Some paymentDate,
                                  lastFailureReason := reason v\<rparr>
                     in case saveRD rd1 of
                          Inl e \<Rightarrow> \<lparr>rdDoc = rd1, rdStore = db, rdSaved = None,
                                    rdResult = Inl e\<rparr>
                        | Inr _ \<Rightarrow>
                            \<lparr>rdDoc = rd1, rdStore = db, rdSaved = Some rd1,
                             rdResult = Inl (''Payment failed: '' @
                               (case reason v of Some r \<Rightarrow> r | None \<Rightarrow> ''null''))\<rparr>)
               else (case debit clk totalAmount fromAccount1 of
                  (fromAccount2, Inl e) \<Rightarrow>
                    \<lparr>rdDoc = rd, rdStore = db, rdSaved = None, rdResult = Inl e\<rparr>
                | (fromAccount2, Inr _) \<Rightarrow>
                    (let db1 = storeAccount fromAccount2 db
                     in case saveNewTransaction tid
                            \<lparr>transactionId = [],
                             fromAccountNumber = Some (accountNumber fromAccount2),
                             toAccountNumber = None, amount = totalAmount,
                             transactionType = TxRdDeposit,
                             description = ''RD Installment payment for RD-'' @ rdNumber rd
                               @ (if penalty > 0 then note else []),
                             txnStatus = Completed,
                             reference = Some (rdNumber rd),
                             transactionFee = 0, gst = 0, totalFees = 0,
                             fromAccountBalance = None, toAccountBalance = None,
                             processedAt = Some paymentDate, failureReason = None\<rparr> db1 of
                          Inl e \<Rightarrow> \<lparr>rdDoc = rd, rdStore = db1, rdSaved = None,
                                    rdResult = Inl e\<rparr>
                        | Inr (x, db2) \<Rightarrow>
                            (case saveNewInstallment
                                   \<lparr>instRdId = rdNumber rd,
                                    installmentNumber = installmentsPaid rd + 1,
                                    instAmount = monthlyAmount rd,
                                    instPenaltyAmount = penalty,
                                    instTotalAmount = totalAmount,
                                    dueDate = nextDueDate rd,
                                    paidDate = Some paymentDate,
                                    instPaid = True,
                                    instTransactionId = Some (transactionId x)\<rparr> db2 of
                               Inl e \<Rightarrow> \<lparr>rdDoc = rd, rdStore = db2, rdSaved = None,
                                         rdResult = Inl e\<rparr>
                             | Inr (i, db3) \<Rightarrow>
                                 finishInstallment clk nextMonth tidM penalty totalAmount x i
                                   rd db3)))))"

section \<open>Notions used by the properties\<close>

text \<open>The balance floor of an account: the minimum balance of a savings account, the
  overdraft limit of a current account.\<close>

definition floorOK :: "account \<Rightarrow> bool" where
  "floorOK a =
     (case accountType a of
        Savings \<Rightarrow> balance a \<ge> minimumBalance a
      | Current \<Rightarrow> balance a \<ge> - overdraftLimit a)"

text \<open>
  A sequence of calls on one account. \<open>runOps\<close> follows the document in memory, which
  keeps what a call assigned even when the call throws; \<open>runStored\<close> follows the stored
  document, which changes only when the call's save went through.
\<close>

datatype accountOp = Credit rat | Debit clock rat

fun applyOp :: "account \<Rightarrow> accountOp \<Rightarrow> account \<times> (string + rat)" where
  "applyOp a (Credit amt) = credit amt a"
| "applyOp a (Debit clk amt) = debit clk amt a"

fun runOps :: "account \<Rightarrow> accountOp list \<Rightarrow> account" where
  "runOps a [] = a"
| "runOps a (x # xs) = runOps (fst (applyOp a x)) xs"

fun runStored :: "account \<Rightarrow> accountOp list \<Rightarrow> account" where
  "runStored a [] = a"
| "runStored a (x # xs) =
     (case applyOp a x of
        (a', Inr _) \<Rightarrow> runStored a' xs
      | (a', Inl _) \<Rightarrow> runStored a xs)"

text \<open>
  \<open>canTransact\<close> as the specification words it: first the two window resets, then the
  three checks in their order, answering with the first check that is violated.
\<close>

definition spec_resetWindows :: "clock \<Rightarrow> account \<Rightarrow> account" where
  "spec_resetWindows clk a =
     (let d = (if today clk > lastTransactionReset a
               then a\<lparr>todayTransactionAmount := 0, lastTransactionReset := now clk\<rparr>
               else a)
      in if thisMonth clk > lastMonthlyReset d
         then d\<lparr>monthTransactionAmount := 0, lastMonthlyReset := now clk\<rparr>
         else d)"

definition spec_checks :: "rat \<Rightarrow> account \<Rightarrow> (bool \<times> string) list" where
  "spec_checks amt a =
     [(todayTransactionAmount a + amt \<le> dailyTransactionLimit a,
       ''Daily transaction limit exceeded''),
      (monthTransactionAmount a + amt \<le> monthlyTransactionLimit a,
       ''Monthly transaction limit exceeded''),
      (case accountType a of
         Savings \<Rightarrow> (balance a - amt \<ge> minimumBalance a,
                     ''Insufficient balance. Minimum balance requirement not met'')
       | Current \<Rightarrow> (balance a - amt \<ge> - overdraftLimit a, ''Overdraft limit exceeded''))]"

definition spec_canTransact :: "clock \<Rightarrow> rat \<Rightarrow> account \<Rightarrow> account \<times> verdict" where
  "spec_canTransact clk amt a =
     (let a' = spec_resetWindows clk a
      in case List.find (\<lambda>c. \<not> fst c) (spec_checks amt a') of
           Some c \<Rightarrow> (a', \<lparr>allowed = False, reason = Some (snd c)\<rparr>)
         | None \<Rightarrow> (a', \<lparr>allowed = True, reason = None\<rparr>))"

text \<open>Concrete states for the examples.\<close>

definition exampleClock :: clock where
  "exampleClock = \<lparr>now = 1700000000000, today = 1699920000000, thisMonth = 1698796800000\<rparr>"

definition exampleSavings :: account where
  "exampleSavings =
     \<lparr>accountNumber = ''1000000001'', userId = 1, accountType = Savings, balance = 1000,
      minimumBalance = 1000, overdraftLimit = 0, isActive = True, freezeReason = FreezeNone,
      dailyTransactionLimit = 50000, monthlyTransactionLimit = 500000,
      todayTransactionAmount = 0, monthTransactionAmount = 0,
      lastTransactionReset = 1699990000000, lastMonthlyReset = 1699990000000\<rparr>"

definition exampleOps :: "accountOp list" where
  "exampleOps = [Credit 4000, Debit exampleClock 500, Debit exampleClock 100000, Credit 0]"

definition exampleSender :: account where
  "exampleSender =
     \<lparr>accountNumber = ''1000000002'', userId = 7, accountType = Savings, balance = 5000,
      minimumBalance = 1000, overdraftLimit = 0, isActive = True, freezeReason = FreezeNone,
      dailyTransactionLimit = 50000, monthlyTransactionLimit = 500000,
      todayTransactionAmount = 0, monthTransactionAmount = 0,
      lastTransactionReset = 1699990000000, lastMonthlyReset = 1699990000000\<rparr>"

definition exampleCurrent :: account where
  "exampleCurrent =
     \<lparr>accountNumber = ''2000000001'', userId = 8, accountType = Current, balance = 100,
      minimumBalance = 0, overdraftLimit = 50000, isActive = True, freezeReason = FreezeNone,
      dailyTransactionLimit = 100000, monthlyTransactionLimit = 1000000,
      todayTransactionAmount = 0, monthTransactionAmount = 0,
      lastTransactionReset = 1699990000000, lastMonthlyReset = 1699990000000\<rparr>"

definition exampleBank :: bank where
  "exampleBank =
     \<lparr>accounts = [''1000000002'' \<mapsto> exampleSender, ''2000000001'' \<mapsto> exampleCurrent],
      transactions = Map.empty, installments = []\<rparr>"

definition exampleCompletedTxn :: transaction where
  "exampleCompletedTxn =
     \<lparr>transactionId = ''TXN20231114000007'', fromAccountNumber = Some ''1000000002'',
      toAccountNumber = Some ''2000000001'', amount = 500, transactionType = TxTransfer,
      description = ''Money transfer'', txnStatus = Completed, reference = None, transactionFee = 0, gst = 0, totalFees = 0,
      fromAccountBalance = Some 4500, toAccountBalance = Some 600,
      processedAt = Some 1699999000000, failureReason = None\<rparr>"

definition exampleFailedTxn :: transaction where
  "exampleFailedTxn =
     exampleCompletedTxn\<lparr>txnStatus := Failed, fromAccountBalance := None,
       toAccountBalance := None, failureReason := Some ''Daily transaction limit exceeded''\<rparr>"

text \<open>
  A recurring deposit of 1000 a month whose instalment fell due five days and one hour
  before the clock reading, and the same deposit with eleven of its twelve instalments
  paid. The example calendar steps a month as thirty days.
\<close>

definition exampleRD :: recurringDeposit where
  "exampleRD =
     \<lparr>rdNumber = ''2023000001'', fromAccountId = ''1000000002'', monthlyAmount = 1000,
      rdInterestRate = 68 / 10, tenure = 12, totalDeposited = 3000, maturityAmount = 12450,
      nextDueDate = 1699564400000, rdStatus = RdActive, installmentsPaid = 3,
      penaltyAmount = 0, failureCount = 1, lastFailureDate = None, lastFailureReason = None,
      maturityDetails = None\<rparr>"

definition exampleLastRD :: recurringDeposit where
  "exampleLastRD = exampleRD\<lparr>installmentsPaid := 11, totalDeposited := 11000\<rparr>"

definition exampleNextMonth :: "date \<Rightarrow> date" where
  "exampleNextMonth d = d + 30 * (1000 * 60 * 60 * 24)"


section \<open>Properties of the Ledger Account\<close>

lemma canTransact_ignores_freeze:
  "canTransact clk amt (a\<lparr>isActive := i, freezeReason := f\<rparr>) =
     (case canTransact clk amt a of (a', v) \<Rightarrow> (a'\<lparr>isActive := i, freezeReason := f\<rparr>, v))"
  by (simp add: canTransact_def Let_def split: accountType.splits)

lemma credit_ignores_freeze:
  "credit amt (a\<lparr>isActive := i, freezeReason := f\<rparr>) =
     (case credit amt a of (a', r) \<Rightarrow> (a'\<lparr>isActive := i, freezeReason := f\<rparr>, r))"
  by (simp add: credit_def save_def validateBalance_def Let_def
      split: accountType.splits option.splits)

lemma debit_ignores_freeze:
  "debit clk amt (a\<lparr>isActive := i, freezeReason := f\<rparr>) =
     (case debit clk amt a of (a', r) \<Rightarrow> (a'\<lparr>isActive := i, freezeReason := f\<rparr>, r))"
  by (simp add: debit_def canTransact_ignores_freeze updateTransactionAmounts_def save_def
      validateBalance_def Let_def split: prod.splits accountType.splits option.splits)

text \<open>
  Claim C9. \<open>canTransact\<close>, \<open>debit\<close> and \<open>credit\<close> do not depend on \<open>isActive\<close> and
  \<open>freezeReason\<close>: on two accounts that differ only in these two fields they return the
  same result and leave documents that again differ only in these two fields, so the
  balance and the limit counters are updated alike. In particular the outcome of a debit
  or a credit on a frozen account is the outcome on the same account unfrozen; a frozen
  savings account holding 5000 is debited 500 and credited 500 like any other.
\<close>

theorem account_operations_ignore_freeze_state:
  "canTransact clk amt (a\<lparr>isActive := i, freezeReason := f\<rparr>) =
     (case canTransact clk amt a of (a', v) \<Rightarrow> (a'\<lparr>isActive := i, freezeReason := f\<rparr>, v))
   \<and> debit clk amt (a\<lparr>isActive := i, freezeReason := f\<rparr>) =
     (case debit clk amt a of (a', r) \<Rightarrow> (a'\<lparr>isActive := i, freezeReason := f\<rparr>, r))
   \<and> credit amt (a\<lparr>isActive := i, freezeReason := f\<rparr>) =
     (case credit amt a of (a', r) \<Rightarrow> (a'\<lparr>isActive := i, freezeReason := f\<rparr>, r))
   \<and> snd (debit clk amt (freeze r a)) = snd (debit clk amt a)
   \<and> snd (credit amt (freeze r a)) = snd (credit amt a)
   \<and> balance (fst (debit clk amt (freeze r a))) = balance (fst (debit clk amt a))
   \<and> balance (fst (credit amt (freeze r a))) = balance (fst (credit amt a))
   \<and> snd (debit exampleClock 500 (freeze LegalHold exampleSender)) = Inr 4500
   \<and> snd (credit 500 (freeze LegalHold exampleSender)) = Inr 5500"
proof -
  have fr: "freeze r a = a\<lparr>isActive := False, freezeReason := r\<rparr>"
    by (simp add: freeze_def)
  have gen: "canTransact clk amt (a\<lparr>isActive := i, freezeReason := f\<rparr>) =
     (case canTransact clk amt a of (a', v) \<Rightarrow> (a'\<lparr>isActive := i, freezeReason := f\<rparr>, v))
   \<and> debit clk amt (a\<lparr>isActive := i, freezeReason := f\<rparr>) =
     (case debit clk amt a of (a', r) \<Rightarrow> (a'\<lparr>isActive := i, freezeReason := f\<rparr>, r))
   \<and> credit amt (a\<lparr>isActive := i, freezeReason := f\<rparr>) =
     (case credit amt a of (a', r) \<Rightarrow> (a'\<lparr>isActive := i, freezeReason := f\<rparr>, r))
   \<and> snd (debit clk amt (freeze r a)) = snd (debit clk amt a)
   \<and> snd (credit amt (freeze r a)) = snd (credit amt a)
   \<and> balance (fst (debit clk amt (freeze r a))) = balance (fst (debit clk amt a))
   \<and> balance (fst (credit amt (freeze r a))) = balance (fst (credit amt a))"
    unfolding fr
    by (simp add: canTransact_ignores_freeze debit_ignores_freeze credit_ignores_freeze
        split: prod.splits)
  have ex: "snd (debit exampleClock 500 (freeze LegalHold exampleSender)) = Inr 4500
     \<and> snd (credit 500 (freeze LegalHold exampleSender)) = Inr 5500"
    by (simp add: debit_def credit_def canTransact_def updateTransactionAmounts_def save_def
        validateBalance_def freeze_def exampleSender_def exampleClock_def Let_def)
  from gen ex show ?thesis by (simp only: simp_thms)
qed

text \<open>
  Claim C10. \<open>freeze(reason)\<close> stores the reason and clears \<open>isActive\<close>, so the status
  virtual answers \<open>inactive\<close> after every freeze, never \<open>frozen\<close>; \<open>unfreeze()\<close> sets the
  reason to none and \<open>isActive\<close> to true, so the status is \<open>active\<close> afterwards, whatever
  the account's state was before.
\<close>

theorem freeze_reports_inactive_unfreeze_reactivates:
  "freezeReason (freeze r a) = r \<and> isActive (freeze r a) = False \<and>
   status (freeze r a) = ''inactive'' \<and> status (freeze r a) \<noteq> ''frozen'' \<and>
   freezeReason (unfreeze a) = FreezeNone \<and> isActive (unfreeze a) = True \<and>
   status (unfreeze a) = ''active''"
  by (simp add: freeze_def unfreeze_def status_def)

text \<open>
  Claim C4. \<open>canTransact\<close> is the function the specification describes: it resets the
  daily counter (stamping \<open>lastTransactionReset\<close>) when the stored reset lies before
  today's midnight and the monthly counter likewise, keeps these assignments on the
  document whatever the verdict, then checks the daily limit, the monthly limit and the
  balance floor of the account type in this order, and answers with the reason of the
  first violated check alone, or with \<open>allowed\<close> when none is violated.
\<close>

theorem canTransact_meets_spec:
  "canTransact clk amt a = spec_canTransact clk amt a"
  by (simp add: canTransact_def spec_canTransact_def spec_resetWindows_def spec_checks_def
      Let_def not_le split: accountType.splits)

lemma debit_balance:
  "accountType (fst (debit clk amt a)) = accountType a \<and>
   minimumBalance (fst (debit clk amt a)) = minimumBalance a \<and>
   overdraftLimit (fst (debit clk amt a)) = overdraftLimit a \<and>
   (balance (fst (debit clk amt a)) = balance a \<or>
    balance (fst (debit clk amt a)) = balance a - amt \<and>
    floorOK (a\<lparr>balance := balance a - amt\<rparr>))"
  by (simp add: debit_def canTransact_def updateTransactionAmounts_def Let_def floorOK_def
      split: accountType.splits sum.splits)

lemma debit_floorOK: "floorOK a \<Longrightarrow> floorOK (fst (debit clk amt a))"
  using debit_balance[of clk amt a]
  by (auto simp: floorOK_def split: accountType.splits)

lemma credit_floorOK: "floorOK a \<Longrightarrow> floorOK (fst (credit amt a))"
  by (auto simp: credit_def floorOK_def Let_def split: accountType.splits sum.splits)

lemma applyOp_floorOK: "floorOK a \<Longrightarrow> floorOK (fst (applyOp a x))"
  by (cases x) (simp_all add: credit_floorOK debit_floorOK)

lemma runOps_floorOK: "floorOK a \<Longrightarrow> floorOK (runOps a ops)"
proof (induction ops arbitrary: a)
  case Nil
  then show ?case by simp
next
  case (Cons x xs)
  from Cons.prems have "floorOK (fst (applyOp a x))" by (rule applyOp_floorOK)
  then show ?case using Cons.IH by simp
qed

lemma runStored_floorOK: "floorOK a \<Longrightarrow> floorOK (runStored a ops)"
proof (induction ops arbitrary: a)
  case Nil
  then show ?case by simp
next
  case (Cons x xs)
  from Cons.prems have "floorOK (fst (applyOp a x))" by (rule applyOp_floorOK)
  then show ?case using Cons by (auto split: prod.splits sum.splits)
qed

lemma debit_rejects_below_floor:
  "\<not> floorOK (a\<lparr>balance := balance a - amt\<rparr>) \<Longrightarrow>
     isl (snd (debit clk amt a)) \<and> balance (fst (debit clk amt a)) = balance a"
  by (auto simp: debit_def canTransact_def Let_def floorOK_def
      split: accountType.splits if_splits)

text \<open>
  Claim C3. An account that satisfies its balance floor (the minimum balance of a savings
  account, minus the overdraft limit of a current account) satisfies it after any
  sequence of credits and debits, on the document in memory and on the stored document;
  and a debit that would take the balance below the floor throws and leaves the balance
  as it was.
\<close>

theorem balance_floor_invariant:
  "(floorOK a \<longrightarrow> floorOK (runOps a ops) \<and> floorOK (runStored a ops)) \<and>
   (\<not> floorOK (a\<lparr>balance := balance a - amt\<rparr>) \<longrightarrow>
      isl (snd (debit clk amt a)) \<and> balance (fst (debit clk amt a)) = balance a)"
  using runOps_floorOK runStored_floorOK debit_rejects_below_floor by blast

theorem balance_floor_invariant_witness:
  "floorOK exampleSavings \<and> floorOK (runOps exampleSavings exampleOps) \<and>
   floorOK (runStored exampleSavings exampleOps) \<and>
   \<not> floorOK (exampleSavings\<lparr>balance := balance exampleSavings - 500\<rparr>) \<and>
   isl (snd (debit exampleClock 500 exampleSavings)) \<and>
   balance (fst (debit exampleClock 500 exampleSavings)) = balance exampleSavings"
proof -
  have h1: "floorOK exampleSavings"
    by (simp add: floorOK_def exampleSavings_def)
  have h2: "\<not> floorOK (exampleSavings\<lparr>balance := balance exampleSavings - 500\<rparr>)"
    by (simp add: floorOK_def exampleSavings_def)
  show ?thesis
    using h1 h2 balance_floor_invariant [of exampleSavings exampleOps 500 exampleClock]
    by blast
qed

section \<open>Properties of the Transaction Record\<close>

text \<open>
  Claim C5 (complete and fail on a record in a terminal state). The specification has
  \<open>fail\<close> succeed only from \<open>pending\<close>, and has \<open>complete\<close> and \<open>fail\<close> on a record
  that is already completed, failed or reversed rejected. The two methods (part_004,
  lines 276-300) read no status: they assign the new one and save. On a completed
  record \<open>fail('late failure')\<close> is accepted and leaves the record failed, with
  \<open>processedAt\<close> and \<open>failureReason\<close> set; on a failed record \<open>complete(1, 2)\<close> is accepted
  and leaves it completed with both snapshots set. The sibling \<open>reverse\<close> does test the
  status before its own transition (line 304).
\<close>

theorem terminal_record_is_overwritten:
  "txnStatus exampleCompletedTxn = Completed \<and>
   fail 1700000000000 ''late failure'' exampleCompletedTxn =
     (exampleCompletedTxn\<lparr>txnStatus := Failed, processedAt := Some 1700000000000,
        failureReason := Some ''late failure''\<rparr>, Inr ()) \<and>
   txnStatus exampleFailedTxn = Failed \<and>
   complete 1700000000000 (Some 1) (Some 2) exampleFailedTxn =
     (exampleFailedTxn\<lparr>txnStatus := Completed, processedAt := Some 1700000000000,
        fromAccountBalance := Some 1, toAccountBalance := Some 2\<rparr>, Inr ())"
  by (simp add: fail_def complete_def saveTransaction_def validateTransaction_def trim_def
      isSpace_def exampleCompletedTxn_def exampleFailedTxn_def Let_def)

text \<open>
  The same for every record: neither the validation nor the two methods depend on the
  status the record has, and the fields they assign are the ones the specification
  lists.
\<close>

lemma validateTransaction_ignores_status:
  "validateTransaction (x\<lparr>txnStatus := s\<rparr>) = validateTransaction x"
  by (simp add: validateTransaction_def)

lemma complete_and_fail_ignore_status:
  "fail t r (x\<lparr>txnStatus := s\<rparr>) = fail t r x \<and>
   complete t fb tb (x\<lparr>txnStatus := s\<rparr>) = complete t fb tb x \<and>
   txnStatus (fst (fail t r x)) = Failed \<and>
   processedAt (fst (fail t r x)) = Some t \<and>
   failureReason (fst (fail t r x)) = Some r \<and>
   txnStatus (fst (complete t fb tb x)) = Completed \<and>
   processedAt (fst (complete t fb tb x)) = Some t \<and>
   fromAccountBalance (fst (complete t fb tb x)) =
     (case fb of Some b \<Rightarrow> Some b | None \<Rightarrow> fromAccountBalance x) \<and>
   toAccountBalance (fst (complete t fb tb x)) =
     (case tb of Some b \<Rightarrow> Some b | None \<Rightarrow> toAccountBalance x)"
  by (simp add: fail_def complete_def Let_def split: option.splits)

section \<open>Properties of transferMoney\<close>

text \<open>
  A new record built without \<open>transactionId\<close> is refused by its first save: the
  identifier is generated by a hook that runs only after validation.
\<close>

lemma saveNew_without_id:
  "transactionId x = [] \<Longrightarrow>
     saveNew tid x = Inl ''Transaction validation failed: transactionId: Path `transactionId` is required.''"
  by (simp add: saveNew_def saveTransaction_def validateTransaction_def)

lemma reject_store: "store (reject c m s db f t) = db \<and> txnDoc (reject c m s db f t) = None"
  by (simp add: reject_def abortTransaction_def)

lemma reject_not_ok: "response (reject c m s db f t) \<noteq> Response 200 True m'"
  by (simp add: reject_def)

text \<open>
  The handler builds its record without \<open>transactionId\<close> (lines 113-128), so the save of
  line 130 is refused on every request that passes the checks before it: no request is
  answered 200, the stored collections are left as they were, and the record, where one
  was built, is still pending and without identifier when the handler returns.
\<close>

lemma transferMoney_never_succeeds:
  "response (transferMoney clk tid db e uid A B amt d) \<noteq> Response 200 True m \<and>
   store (transferMoney clk tid db e uid A B amt d) = db \<and>
   (case txnDoc (transferMoney clk tid db e uid A B amt d) of
      None \<Rightarrow> True
    | Some x \<Rightarrow> txnStatus x = Pending \<and> transactionId x = [])"
proof -
  have n: "saveNew tid (newTransfer f t amt q) =
      Inl ''Transaction validation failed: transactionId: Path `transactionId` is required.''"
    for f t q
    by (rule saveNew_without_id) (simp add: newTransfer_def)
  have p: "txnStatus (newTransfer f t amt q) = Pending \<and> transactionId (newTransfer f t amt q) = []"
    for f t q
    by (simp add: newTransfer_def)
  show ?thesis
    by (simp add: transferMoney_def Let_def n p reject_store reject_not_ok abortTransaction_def
        split: option.splits prod.splits)
qed

text \<open>
  A transfer of 500 between two active, funded accounts of the example store is
  answered 500.
\<close>

lemma valid_transfer_answers_500:
  "response (transferMoney exampleClock ''TXN20231114000001'' exampleBank True 7
       ''1000000002'' ''2000000001'' 500 None) =
     Response 500 False ''Transfer failed. Please try again.'' \<and>
   store (transferMoney exampleClock ''TXN20231114000001'' exampleBank True 7
       ''1000000002'' ''2000000001'' 500 None) = exampleBank"
  by (simp add: transferMoney_def reject_def newTransfer_def saveNew_def saveTransaction_def
      validateTransaction_def findOwnActive_def findByAccountNumber_def startTransaction_def
      abortTransaction_def canTransact_def exampleBank_def exampleSender_def exampleCurrent_def
      exampleClock_def Let_def)

text \<open>
  The freeze and activity checks are the handler's (lines 67-91): a source that is
  inactive or frozen, or such a destination, ends the request before any document is
  saved.
\<close>

lemma transfer_refuses_frozen_source:
  assumes "accounts db A = Some a" and "\<not> isActive a \<or> freezeReason a \<noteq> FreezeNone"
  shows "response (transferMoney clk tid db e uid A B amt d) \<noteq> Response 200 True m \<and>
         store (transferMoney clk tid db e uid A B amt d) = db \<and>
         txnDoc (transferMoney clk tid db e uid A B amt d) = None"
  using assms
  by (auto simp: transferMoney_def findOwnActive_def Let_def reject_def abortTransaction_def)

lemma transfer_refuses_frozen_destination:
  assumes "accounts db B = Some b" and "\<not> isActive b \<or> freezeReason b \<noteq> FreezeNone"
  shows "response (transferMoney clk tid db e uid A B amt d) \<noteq> Response 200 True m \<and>
         store (transferMoney clk tid db e uid A B amt d) = db \<and>
         txnDoc (transferMoney clk tid db e uid A B amt d) = None"
  using assms
  by (auto simp: transferMoney_def findByAccountNumber_def Let_def reject_def
      abortTransaction_def split: option.splits)











section \<open>Properties of the Recurring Deposit\<close>

text \<open>
  \<open>canTransact\<close> changes the counters and reset stamps of the document only, and asking
  twice gives the same answer.
\<close>

lemma canTransact_static:
  "canTransact clk amt a = (a', v) \<Longrightarrow>
     balance a' = balance a \<and> accountNumber a' = accountNumber a \<and>
     accountType a' = accountType a \<and> minimumBalance a' = minimumBalance a \<and>
     overdraftLimit a' = overdraftLimit a"
  by (auto simp: canTransact_def Let_def split: if_splits accountType.splits)

lemma canTransact_allowed_floor:
  "canTransact clk amt a = (a', v) \<Longrightarrow> allowed v \<Longrightarrow>
     floorOK (a\<lparr>balance := balance a - amt\<rparr>)"
  by (auto simp: canTransact_def Let_def floorOK_def split: if_splits accountType.splits)

lemma resetWindows_again:
  "spec_resetWindows clk (spec_resetWindows clk a) = spec_resetWindows clk a"
  by (simp add: spec_resetWindows_def Let_def)

lemma canTransact_document: "fst (canTransact clk amt a) = spec_resetWindows clk a"
  by (simp add: canTransact_def spec_resetWindows_def Let_def split: accountType.splits)

lemma canTransact_verdict:
  "snd (canTransact clk amt a) = snd (canTransact clk amt (spec_resetWindows clk a))"
  by (simp add: canTransact_def spec_resetWindows_def Let_def split: accountType.splits)

lemma canTransact_again:
  assumes "canTransact clk amt a = (a1, v)"
  shows "canTransact clk amt a1 = (a1, v)"
proof -
  from assms have a1: "a1 = spec_resetWindows clk a"
    using canTransact_document[of clk amt a] by simp
  from assms have v: "v = snd (canTransact clk amt a1)"
    using canTransact_verdict[of clk amt a] a1 by simp
  have "fst (canTransact clk amt a1) = a1"
    by (simp add: canTransact_document a1 resetWindows_again)
  with v show ?thesis by (simp add: prod_eq_iff)
qed

text \<open>
  Whether \<open>debit\<close> returns, once \<open>canTransact\<close> has been asked: it does exactly when the
  amount is positive, \<open>canTransact\<close> allowed it and the new balance is not negative.
\<close>

lemma debit_outcome:
  assumes ct: "canTransact clk amt a = (a1, v)"
  shows "(if 0 < amt \<and> allowed v \<and> 0 \<le> balance a - amt
          then \<exists>a3 r. debit clk amt a1 = (a3, Inr r) \<and> balance a3 = balance a - amt \<and>
                 accountNumber a3 = accountNumber a
          else \<exists>a3 e. debit clk amt a1 = (a3, Inl e))"
proof -
  note again = canTransact_again[OF ct]
  note st = canTransact_static[OF ct]
  show ?thesis
  proof (cases "0 < amt \<and> allowed v")
    case False
    then show ?thesis by (auto simp: debit_def again)
  next
    case True
    then have fl: "floorOK (a\<lparr>balance := balance a - amt\<rparr>)"
      using canTransact_allowed_floor[OF ct] by simp
    show ?thesis
      using True fl st
      by (auto simp: debit_def again updateTransactionAmounts_def save_def validateBalance_def
          floorOK_def Let_def split: accountType.splits)
  qed
qed

text \<open>
  Both methods build their transaction without \<open>transactionId\<close> (lines 341-354 and
  418-429), so its save is refused. \<open>processMaturity\<close> throws before the credit;
  \<open>processInstallment\<close> throws after the debit, leaving the deposit as it was and no
  transaction or instalment stored.
\<close>

lemma saveNewTransaction_without_id:
  "transactionId x = [] \<Longrightarrow>
     saveNewTransaction tid x db =
       Inl ''Transaction validation failed: transactionId: Path `transactionId` is required.''"
  by (simp add: saveNewTransaction_def saveNew_without_id)

lemma processMaturity_always_throws:
  "isl (rdResult (processMaturity clk tid rd db)) \<and>
   rdStore (processMaturity clk tid rd db) = db \<and>
   rdDoc (processMaturity clk tid rd db) = rd \<and>
   rdSaved (processMaturity clk tid rd db) = None"
  by (simp add: processMaturity_def Let_def saveNewTransaction_without_id split: option.splits)

lemma processInstallment_always_throws:
  "isl (rdResult (processInstallment clk nm note pd tid tidM rd db)) \<and>
   rdStatus (rdDoc (processInstallment clk nm note pd tid tidM rd db)) = rdStatus rd \<and>
   installmentsPaid (rdDoc (processInstallment clk nm note pd tid tidM rd db)) =
     installmentsPaid rd \<and>
   transactions (rdStore (processInstallment clk nm note pd tid tidM rd db)) = transactions db \<and>
   installments (rdStore (processInstallment clk nm note pd tid tidM rd db)) = installments db"
  by (simp add: processInstallment_def Let_def saveNewTransaction_without_id storeAccount_def
      split: option.splits prod.splits sum.splits)

text \<open>
  Claim C7 (penalty and debit of an instalment). For an active deposit whose source
  account is stored, the penalty is \<open>min (overdueDays * 10) (monthlyAmount * 0.10)\<close> when
  the clock is past \<open>nextDueDate\<close> and 0 otherwise, \<open>overdueDays\<close> being the whole days
  from \<open>nextDueDate\<close> to the payment date. The call debits the source account by exactly
  \<open>monthlyAmount + penalty\<close>, and the debit is stored, when that total is positive,
  \<open>canTransact\<close> allows it and the balance stays at 0 or more; in every other case the
  stored accounts are unchanged. The statement does not depend on how the call ends.
\<close>

theorem installment_penalty_and_debit:
  assumes act: "rdStatus rd = RdActive"
      and fa: "accounts db (fromAccountId rd) = Some fa" "accountNumber fa = fromAccountId rd"
  shows "installmentPenalty clk pd rd =
           (if now clk > nextDueDate rd
            then min (of_int ((pd - nextDueDate rd) div 86400000) * 10)
                     (monthlyAmount rd * (1 / 10))
            else 0) \<and>
         (if 0 < monthlyAmount rd + installmentPenalty clk pd rd \<and>
             allowed (snd (canTransact clk (monthlyAmount rd + installmentPenalty clk pd rd) fa)) \<and>
             0 \<le> balance fa - (monthlyAmount rd + installmentPenalty clk pd rd)
          then \<exists>fa'. accounts (rdStore (processInstallment clk nm note pd tid tidM rd db)) =
                        (accounts db)(fromAccountId rd \<mapsto> fa') \<and>
                      balance fa' = balance fa - (monthlyAmount rd + installmentPenalty clk pd rd)
          else accounts (rdStore (processInstallment clk nm note pd tid tidM rd db)) =
                 accounts db)"
proof -
  let ?p = "installmentPenalty clk pd rd"
  let ?t = "monthlyAmount rd + ?p"
  have pen: "?p = (if now clk > nextDueDate rd
            then min (of_int ((pd - nextDueDate rd) div 86400000) * 10)
                     (monthlyAmount rd * (1 / 10))
            else 0)"
    using act by (simp add: installmentPenalty_def isOverdue_def overdueDays_def)
  obtain fa1 v where ct: "canTransact clk ?t fa = (fa1, v)" by (cases "canTransact clk ?t fa")
  have sv: "snd (canTransact clk ?t fa) = v" by (simp add: ct)
  note d = debit_outcome[OF ct]
  have "(if 0 < ?t \<and> allowed v \<and> 0 \<le> balance fa - ?t
          then \<exists>fa'. accounts (rdStore (processInstallment clk nm note pd tid tidM rd db)) =
                        (accounts db)(fromAccountId rd \<mapsto> fa') \<and>
                      balance fa' = balance fa - ?t
          else accounts (rdStore (processInstallment clk nm note pd tid tidM rd db)) =
                 accounts db)"
  proof (cases "allowed v")
    case False
    then show ?thesis
      using act fa ct by (simp add: processInstallment_def Let_def split: sum.splits)
  next
    case True
    note al = this
    show ?thesis
    proof (cases "0 < ?t \<and> 0 \<le> balance fa - ?t")
      case True
      with al d obtain a3 r where
        db3: "debit clk ?t fa1 = (a3, Inr r)" and b3: "balance a3 = balance fa - ?t"
        and n3: "accountNumber a3 = accountNumber fa" by auto
      have "accounts (rdStore (processInstallment clk nm note pd tid tidM rd db)) =
              (accounts db)(fromAccountId rd \<mapsto> a3)"
        using act fa ct al db3 n3
        by (simp add: processInstallment_def Let_def saveNewTransaction_without_id
            storeAccount_def)
      with True al b3 show ?thesis by auto
    next
      case False
      with al d obtain a3 e where db3: "debit clk ?t fa1 = (a3, Inl e)" by auto
      have "accounts (rdStore (processInstallment clk nm note pd tid tidM rd db)) = accounts db"
        using act fa ct al db3 by (simp add: processInstallment_def Let_def)
      with False show ?thesis by auto
    qed
  qed
  then show ?thesis using pen sv by simp
qed

theorem installment_penalty_and_debit_witness:
  "rdStatus exampleRD = RdActive \<and>
   accounts exampleBank (fromAccountId exampleRD) = Some exampleSender \<and>
   accountNumber exampleSender = fromAccountId exampleRD \<and>
   monthlyAmount exampleRD = 1000 \<and>
   (now exampleClock - nextDueDate exampleRD) div 86400000 = 5 \<and>
   installmentPenalty exampleClock (now exampleClock) exampleRD = 50 \<and>
   (\<exists>fa'. accounts (rdStore (processInstallment exampleClock exampleNextMonth
                '' (includes penalty: 50)'' (now exampleClock) ''TXN1'' ''TXN2''
                exampleRD exampleBank)) =
              (accounts exampleBank)(fromAccountId exampleRD \<mapsto> fa') \<and>
          balance fa' = 5000 - 1050)"
proof -
  have h1: "rdStatus exampleRD = RdActive" by (simp add: exampleRD_def)
  have h2: "accounts exampleBank (fromAccountId exampleRD) = Some exampleSender"
    by (simp add: exampleBank_def exampleRD_def)
  have h3: "accountNumber exampleSender = fromAccountId exampleRD"
    by (simp add: exampleSender_def exampleRD_def)
  have h4: "monthlyAmount exampleRD = 1000" by (simp add: exampleRD_def)
  have h5: "(now exampleClock - nextDueDate exampleRD) div 86400000 = 5"
    by (simp add: exampleRD_def exampleClock_def)
  have pv: "installmentPenalty exampleClock (now exampleClock) exampleRD = 50"
    by (simp add: installmentPenalty_def isOverdue_def overdueDays_def exampleRD_def
        exampleClock_def)
  have cond: "0 < monthlyAmount exampleRD + 50 \<and>
      allowed (snd (canTransact exampleClock (monthlyAmount exampleRD + 50) exampleSender)) \<and>
      0 \<le> balance exampleSender - (monthlyAmount exampleRD + 50)"
    by (simp add: canTransact_def exampleRD_def exampleSender_def exampleClock_def Let_def)
  have bal: "balance exampleSender - (monthlyAmount exampleRD + 50) = 5000 - 1050"
    by (simp add: exampleRD_def exampleSender_def)
  note t = installment_penalty_and_debit[OF h1 h2 h3, of exampleClock "now exampleClock"
      exampleNextMonth "'' (includes penalty: 50)''" "''TXN1''" "''TXN2''", unfolded pv]
  from t[THEN conjunct2] cond
  have "\<exists>fa'. accounts (rdStore (processInstallment exampleClock exampleNextMonth
                '' (includes penalty: 50)'' (now exampleClock) ''TXN1'' ''TXN2''
                exampleRD exampleBank)) =
              (accounts exampleBank)(fromAccountId exampleRD \<mapsto> fa') \<and>
          balance fa' = 5000 - 1050"
    unfolding bal by (simp only: if_True simp_thms)
  with h1 h2 h3 h4 h5 pv show ?thesis by (intro conjI)
qed

text \<open>
  The last instalment of a deposit with 11 of 12 paid: the account is debited 1050, the
  call throws, and the deposit is neither saved nor matured.
\<close>

lemmas rd_defs =
  processInstallment_def finishInstallment_def processMaturity_def installmentPenalty_def
  overdueDays_def isOverdue_def saveNewTransaction_def saveNew_def saveNewInstallment_def
  validateInstallment_def saveRD_def validateRD_def preSaveNew_def calculateTransactionFees_def
  saveTransaction_def validateTransaction_def trim_def isSpace_def storeAccount_def
  storeTransaction_def debit_def credit_def canTransact_def updateTransactionAmounts_def
  save_def validateBalance_def

lemma last_installment_example:
  "rdResult (processInstallment exampleClock exampleNextMonth '' (includes penalty: 50)''
       (now exampleClock) ''TXN1'' ''TXN2'' exampleLastRD exampleBank) =
     Inl ''Transaction validation failed: transactionId: Path `transactionId` is required.'' \<and>
   rdDoc (processInstallment exampleClock exampleNextMonth '' (includes penalty: 50)''
       (now exampleClock) ''TXN1'' ''TXN2'' exampleLastRD exampleBank) = exampleLastRD \<and>
   map_option balance (accounts (rdStore (processInstallment exampleClock exampleNextMonth
       '' (includes penalty: 50)'' (now exampleClock) ''TXN1'' ''TXN2'' exampleLastRD
       exampleBank)) ''1000000002'') = Some 3950"
  by (simp add: rd_defs exampleRD_def exampleLastRD_def exampleBank_def exampleSender_def
      exampleCurrent_def exampleClock_def Let_def)

end
